theory Spec2Isabelle
  imports Main
begin

section \<open>Python strings\<close>

text \<open>
  A Python \<open>str\<close> is modelled as a \<open>string\<close>, one \<open>char\<close> per code point (code points
  below 256 only), so that \<open>length\<close> is Python's \<open>len\<close>.
\<close>

definition isspace :: "char \<Rightarrow> bool" where
  \<comment> \<open>\<open>str.isspace\<close> on one character; also the class \<open>\s\<close> of \<open>re\<close>.\<close>
  "isspace c = ((of_char c :: nat) \<in> {9, 10, 11, 12, 13, 28, 29, 30, 31, 32, 133, 160})"

definition strip :: "string \<Rightarrow> string" where
  \<comment> \<open>\<open>s.strip()\<close>\<close>
  "strip s = rev (dropWhile isspace (rev (dropWhile isspace s)))"

definition rstrip_slash :: "string \<Rightarrow> string" where
  \<comment> \<open>\<open>s.rstrip('/')\<close>\<close>
  "rstrip_slash s = rev (dropWhile (\<lambda>c. c = CHR ''/'') (rev s))"

definition startswith :: "string \<Rightarrow> string \<Rightarrow> bool" where
  \<comment> \<open>\<open>s.startswith(p)\<close>\<close>
  "startswith s p = (take (length p) s = p)"

definition endswith :: "string \<Rightarrow> string \<Rightarrow> bool" where
  \<comment> \<open>\<open>s.endswith(p)\<close>\<close>
  "endswith s p = (length p \<le> length s \<and> drop (length s - length p) s = p)"

definition lower_char :: "char \<Rightarrow> char" where
  \<comment> \<open>An upper-case code point below 256 has bit 5 clear; setting it adds 32.\<close>
  "lower_char c =
     (let n = (of_char c :: nat)
      in if (65 \<le> n \<and> n \<le> 90) \<or> (192 \<le> n \<and> n \<le> 214) \<or> (216 \<le> n \<and> n \<le> 222)
         then (case c of Char b0 b1 b2 b3 b4 b5 b6 b7 \<Rightarrow> Char b0 b1 b2 b3 b4 True b6 b7)
         else c)"

definition lower :: "string \<Rightarrow> string" where
  \<comment> \<open>\<open>s.lower()\<close>\<close>
  "lower s = map lower_char s"


fun join :: "string \<Rightarrow> string list \<Rightarrow> string" where
  \<comment> \<open>\<open>sep.join(xs)\<close>\<close>
  "join sep [] = []"
| "join sep [x] = x"
| "join sep (x # y # ys) = x @ sep @ join sep (y # ys)"

fun sub_spaces :: "bool \<Rightarrow> string \<Rightarrow> string" where
  \<comment> \<open>\<open>re.sub(r"\s+", " ", s)\<close>: each maximal run of white space becomes one space;
      the flag tells that the previous character belonged to a run.\<close>
  "sub_spaces in_run [] = []"
| "sub_spaces in_run (c # cs) =
     (if isspace c then (if in_run then sub_spaces True cs else CHR '' '' # sub_spaces True cs)
      else c # sub_spaces False cs)"

definition normalize_space :: "string \<Rightarrow> string" where
  "normalize_space s = sub_spaces False (strip s)"

definition word_char :: "char \<Rightarrow> bool" where
  \<comment> \<open>the class \<open>[A-Za-z0-9']\<close> of \<open>WORD_RE\<close>\<close>
  "word_char c =
     (let n = (of_char c :: nat)
      in (65 \<le> n \<and> n \<le> 90) \<or> (97 \<le> n \<and> n \<le> 122) \<or> (48 \<le> n \<and> n \<le> 57) \<or> n = 39)"

fun count_runs :: "bool \<Rightarrow> string \<Rightarrow> int" where
  \<comment> \<open>the number of matches of \<open>[A-Za-z0-9']+\<close>: the maximal runs of word characters;
      the flag tells that the previous character belonged to a run.\<close>
  "count_runs in_word [] = 0"
| "count_runs in_word (c # cs) =
     (if word_char c then (if in_word then 0 else 1) + count_runs True cs
      else count_runs False cs)"

definition count_words :: "string \<Rightarrow> int" where
  "count_words txt = count_runs False txt"

section \<open>The markup parser's element tree\<close>

text \<open>
  The tree that \<open>BeautifulSoup(html, "html.parser")\<close> returns, with the accessors that
  \<open>audit_html\<close> calls: find-first and find-all by tag name in document order, find-first by
  tag name and attribute value, attribute lookup, and text extraction.  The tree keeps an
  attribute's value as the string written in the page.  The parser holds some attributes as
  lists of tokens, among them \<open>rel\<close> of a \<open>link\<close> element: a search for a string in such an
  attribute succeeds when one of the tokens, or the tokens joined by single spaces, is that
  string.  For any other attribute, such as \<open>name\<close> of a \<open>meta\<close> element, it succeeds when the
  value is that string.  The parser itself is a parameter of the model.
\<close>

datatype html =
    Tag (tag_name: string) (tag_attrs: "(string \<times> string) list") (tag_contents: "html list")
  | NavigableString string

fun nodes :: "html \<Rightarrow> html list" where
  \<comment> \<open>a node and everything below it, in document order\<close>
  "nodes (Tag n as cs) = Tag n as cs # concat (map nodes cs)"
| "nodes (NavigableString s) = [NavigableString s]"

fun descendants :: "html \<Rightarrow> html list" where
  "descendants (Tag n as cs) = concat (map nodes cs)"
| "descendants (NavigableString s) = []"

fun is_tag :: "html \<Rightarrow> bool" where
  "is_tag (Tag n as cs) = True"
| "is_tag (NavigableString s) = False"

fun get :: "html \<Rightarrow> string \<Rightarrow> string option" where
  \<comment> \<open>\<open>tag.get(key)\<close>\<close>
  "get (Tag n as cs) k = map_of as k"
| "get (NavigableString s) k = None"

definition find_all_tags :: "html \<Rightarrow> html list" where
  \<comment> \<open>\<open>soup.find_all(True)\<close>\<close>
  "find_all_tags soup = filter is_tag (descendants soup)"

definition find_all :: "html \<Rightarrow> string \<Rightarrow> html list" where
  \<comment> \<open>\<open>soup.find_all(name)\<close>\<close>
  "find_all soup name = filter (\<lambda>t. tag_name t = name) (find_all_tags soup)"

definition first :: "'a list \<Rightarrow> 'a option" where
  "first xs = (case xs of [] \<Rightarrow> None | x # _ \<Rightarrow> Some x)"

definition find :: "html \<Rightarrow> string \<Rightarrow> html option" where
  \<comment> \<open>\<open>soup.find(name)\<close>\<close>
  "find soup name = first (find_all soup name)"

definition find_attr :: "html \<Rightarrow> string \<Rightarrow> string \<Rightarrow> string \<Rightarrow> html option" where
  \<comment> \<open>\<open>soup.find(name, attrs={key: v})\<close>\<close>
  "find_attr soup name key v = first (filter (\<lambda>t. get t key = Some v) (find_all soup name))"

fun tokens_from :: "string \<Rightarrow> string \<Rightarrow> string list" where
  \<comment> \<open>the matches of \<open>\S+\<close> in the rest of a value; the first argument is the token being
      read\<close>
  "tokens_from cur [] = (if cur = [] then [] else [cur])"
| "tokens_from cur (c # cs) =
     (if isspace c then (if cur = [] then tokens_from [] cs else cur # tokens_from [] cs)
      else tokens_from (cur @ [c]) cs)"

definition tokens :: "string \<Rightarrow> string list" where
  \<comment> \<open>the list of tokens that the parser holds for a value: its parts between white space\<close>
  "tokens v = tokens_from [] v"

definition find_attr_tokens :: "html \<Rightarrow> string \<Rightarrow> string \<Rightarrow> string \<Rightarrow> html option" where
  \<comment> \<open>\<open>soup.find(name, key=v)\<close> for an attribute held as a list of tokens\<close>
  "find_attr_tokens soup name key v =
     first (filter (\<lambda>t. case get t key of
                          None \<Rightarrow> False
                        | Some held \<Rightarrow> v \<in> set (tokens held) \<or> join '' '' (tokens held) = v)
                   (find_all soup name))"

fun strings :: "html \<Rightarrow> string list" where
  \<comment> \<open>the text nodes at and below a node, in document order\<close>
  "strings (Tag n as cs) = concat (map strings cs)"
| "strings (NavigableString s) = [s]"

definition get_text :: "html \<Rightarrow> string \<Rightarrow> string" where
  \<comment> \<open>\<open>tag.get_text(sep)\<close>\<close>
  "get_text t sep = join sep (strings t)"

definition get_text_strip :: "html \<Rightarrow> string" where
  \<comment> \<open>\<open>tag.get_text(strip=True)\<close>: every text node stripped, the empty ones dropped\<close>
  "get_text_strip t = concat (filter (\<lambda>s. s \<noteq> []) (map strip (strings t)))"

section \<open>Page records\<close>

text \<open>
  The dictionary built by \<open>audit_html\<close> (and by the fallback branch of \<open>main\<close>), the same
  dictionary after \<open>data["http_status"] = status\<close>, and the \<open>SeoMetrics\<close> row.  Python
  integers are \<open>int\<close>; the status fields are the strings the code stores.
\<close>

record audit_data =
  word_count :: int
  is_thin_content :: int
  title :: string
  title_len :: int
  title_status :: string
  meta_desc :: string
  meta_desc_len :: int
  meta_desc_status :: string
  h1_count :: int
  canonical_link :: string
  canonical_status :: string
  internal_links :: int
  external_links :: int
  broken_anchors :: int
  img_missing_alt :: int

record audit_row = audit_data +
  http_status :: int

record SeoMetrics = audit_row +
  url :: string
  severity :: string

section \<open>Severity\<close>

definition compute_severity :: "'a audit_row_scheme \<Rightarrow> string" where
  "compute_severity m =
     (if http_status m \<ge> 400 then ''ERROR''
      else if h1_count m = 0 then ''ERROR''
      else if canonical_status m = ''MISSING'' then ''ERROR''
      else if title_status m = ''MISSING'' then ''ERROR''
      else if is_thin_content m \<noteq> 0 then ''WARN''
      else if meta_desc_status m \<noteq> ''OK'' then ''WARN''
      else if title_status m \<noteq> ''OK'' then ''WARN''
      else if broken_anchors m > 0 then ''WARN''
      else if img_missing_alt m > 0 then ''WARN''
      else ''OK'')"

text \<open>
  The cascade as the specification words it: an ordered list of predicate/outcome pairs,
  the first pair whose predicate holds gives the outcome, and \<open>OK\<close> is the default.
\<close>

fun first_match :: "(('r \<Rightarrow> bool) \<times> string) list \<Rightarrow> string \<Rightarrow> 'r \<Rightarrow> string" where
  "first_match [] dflt m = dflt"
| "first_match ((p, out) # rules) dflt m = (if p m then out else first_match rules dflt m)"

definition severity_cascade :: "(('a audit_row_scheme \<Rightarrow> bool) \<times> string) list" where
  "severity_cascade =
     [(\<lambda>m. http_status m \<ge> 400, ''ERROR''),
      (\<lambda>m. h1_count m = 0, ''ERROR''),
      (\<lambda>m. canonical_status m = ''MISSING'', ''ERROR''),
      (\<lambda>m. title_status m = ''MISSING'', ''ERROR''),
      (\<lambda>m. is_thin_content m \<noteq> 0, ''WARN''),
      (\<lambda>m. meta_desc_status m \<noteq> ''OK'', ''WARN''),
      (\<lambda>m. title_status m \<noteq> ''OK'', ''WARN''),
      (\<lambda>m. broken_anchors m > 0, ''WARN''),
      (\<lambda>m. img_missing_alt m > 0, ''WARN'')]"

definition clean_row :: "audit_row" where
  \<comment> \<open>A row on which no rule of the cascade fires.\<close>
  "clean_row =
     \<lparr>word_count = 500, is_thin_content = 0, title = ''A title of thirty characters..'',
      title_len = 30, title_status = ''OK'', meta_desc = [], meta_desc_len = 60,
      meta_desc_status = ''OK'', h1_count = 1, canonical_link = ''https://a.example/p'',
      canonical_status = ''SELF'', internal_links = 0, external_links = 0,
      broken_anchors = 0, img_missing_alt = 0, http_status = 200\<rparr>"

section \<open>The page audit\<close>

text \<open>
  \<open>urlparse(href).netloc\<close> is a parameter \<open>netloc\<close> of the model; \<open>None\<close> stands for an
  exception of \<open>urlparse\<close>, which \<open>_get_domain\<close> answers with the empty string.
\<close>

definition get_domain :: "(string \<Rightarrow> string option) \<Rightarrow> string \<Rightarrow> string" where
  "get_domain netloc href =
     (case netloc href of
        None \<Rightarrow> []
      | Some n \<Rightarrow> (let host = lower n in if startswith host ''www.'' then drop 4 host else host))"

text \<open>
  One turn of the loop over the anchors, on the counters
  \<open>(internal, external, broken_anchors)\<close>.
\<close>

definition count_link ::
  "(string \<Rightarrow> string option) \<Rightarrow> string set \<Rightarrow> string \<Rightarrow> html \<Rightarrow> int \<times> int \<times> int \<Rightarrow> int \<times> int \<times> int"
where
  "count_link netloc ids domain a counters =
     (case counters of (internal, external, broken) \<Rightarrow>
        (let href = (case get a ''href'' of None \<Rightarrow> [] | Some h \<Rightarrow> h)
         in if href = [] \<or> startswith href ''mailto:'' \<or> startswith href ''tel:''
               \<or> startswith href ''javascript:''
            then (internal, external, broken)
            else if startswith href ''#''
            then (if length href > 1 \<and> drop 1 href \<notin> ids
                  then (internal, external, broken + 1)
                  else (internal, external, broken))
            else (let link_domain = get_domain netloc href
                  in if link_domain = [] then (internal + 1, external, broken)
                     else if link_domain = domain \<or> endswith link_domain (''.'' @ domain)
                     then (internal + 1, external, broken)
                     else (internal, external + 1, broken))))"

definition collect_ids :: "html \<Rightarrow> string set" where
  \<comment> \<open>\<open>{tag.get("id") for tag in soup.find_all(True) if tag.get("id")}\<close>\<close>
  "collect_ids soup =
     set (concat (map (\<lambda>t. case get t ''id'' of None \<Rightarrow> [] | Some i \<Rightarrow> if i = [] then [] else [i])
                      (find_all_tags soup)))"

definition count_links ::
  "(string \<Rightarrow> string option) \<Rightarrow> html \<Rightarrow> string \<Rightarrow> int \<times> int \<times> int"
where
  "count_links netloc soup domain =
     foldl (\<lambda>counters a. count_link netloc (collect_ids soup) domain a counters) (0, 0, 0)
       (find_all soup ''a'')"

definition audit_html ::
  "(string \<Rightarrow> html) \<Rightarrow> (string \<Rightarrow> string option) \<Rightarrow> string \<Rightarrow> string \<Rightarrow> string \<Rightarrow> audit_data"
where
  "audit_html BeautifulSoup netloc page_url html_text domain =
     (let soup = BeautifulSoup html_text;
          text_all = normalize_space (get_text soup '' '');
          wc = count_words text_all;
          ttl = (case find soup ''title'' of None \<Rightarrow> [] | Some t \<Rightarrow> get_text_strip t);
          t_len = int (length ttl);
          t_status = (if t_len = 0 then ''MISSING''
                      else if t_len < 30 then ''TOO_SHORT''
                      else if t_len > 60 then ''TOO_LONG''
                      else ''OK'');
          desc = (case find_attr soup ''meta'' ''name'' ''description'' of
                    None \<Rightarrow> []
                  | Some d \<Rightarrow> (case get d ''content'' of
                                None \<Rightarrow> []
                              | Some c \<Rightarrow> if c = [] then [] else strip c));
          d_len = int (length desc);
          d_status = (if d_len = 0 then ''MISSING''
                      else if d_len < 50 then ''TOO_SHORT''
                      else if d_len > 160 then ''TOO_LONG''
                      else ''OK'');
          canon_href = (case find_attr_tokens soup ''link'' ''rel'' ''canonical'' of
                          None \<Rightarrow> []
                        | Some c \<Rightarrow> (case get c ''href'' of
                                      None \<Rightarrow> []
                                    | Some h \<Rightarrow> if h = [] then [] else strip h));
          c_status = (if canon_href \<noteq> []
                      then (if rstrip_slash canon_href = rstrip_slash page_url then ''SELF''
                            else ''OTHER'')
                      else ''MISSING'');
          h1s = int (length (find_all soup ''h1''));
          links = count_links netloc soup domain;
          imgs = int (length (filter (\<lambda>img. get img ''alt'' = None \<or> get img ''alt'' = Some [])
                                (find_all soup ''img'')))
      in \<lparr>word_count = wc,
          is_thin_content = (if wc < 300 then 1 else 0),
          title = ttl, title_len = t_len, title_status = t_status,
          meta_desc = desc, meta_desc_len = d_len, meta_desc_status = d_status,
          h1_count = h1s,
          canonical_link = canon_href, canonical_status = c_status,
          internal_links = fst links, external_links = fst (snd links),
          broken_anchors = snd (snd links),
          img_missing_alt = imgs\<rparr>)"

definition fallback_data :: audit_data where
  \<comment> \<open>the dictionary that \<open>main\<close> builds when \<open>status >= 400 or not html\<close>\<close>
  "fallback_data =
     \<lparr>word_count = 0, is_thin_content = 0, title = [], title_len = 0,
      title_status = ''MISSING'', meta_desc = [], meta_desc_len = 0,
      meta_desc_status = ''MISSING'', h1_count = 0, canonical_link = [],
      canonical_status = ''MISSING'', internal_links = 0, external_links = 0,
      broken_anchors = 0, img_missing_alt = 0\<rparr>"

text \<open>
  The body of the loop of \<open>main\<close> over the resolved URLs, for one URL; \<open>fetch_text\<close> is the
  fetcher \<open>_fetch_text\<close> with its time-out and user agent fixed.
\<close>

definition main_row ::
  "(string \<Rightarrow> int \<times> string) \<Rightarrow> (string \<Rightarrow> html) \<Rightarrow> (string \<Rightarrow> string option) \<Rightarrow> string \<Rightarrow> string
   \<Rightarrow> SeoMetrics"
where
  "main_row fetch_text BeautifulSoup netloc domain u =
     (case fetch_text u of (status, html_text) \<Rightarrow>
        (let data = (if status \<ge> 400 \<or> html_text = [] then fallback_data
                     else audit_html BeautifulSoup netloc u html_text domain);
             row = audit_data.extend data (audit_row.fields status);
             sev = compute_severity row
         in audit_row.extend row (SeoMetrics.fields u sev)))"

section \<open>The sitemap resolver\<close>

text \<open>
  An element as \<open>xml.etree.ElementTree\<close> gives it: its tag, its text (\<open>None\<close> when it has
  none) and its children.  \<open>ET.fromstring\<close> is a parameter \<open>fromstring\<close> of the model, with
  \<open>None\<close> for \<open>ET.ParseError\<close>; the fetcher \<open>_fetch_text\<close>, with its time-out and user agent
  fixed, is a parameter \<open>fetch_text\<close>.
\<close>

datatype xml = Element (elem_tag: string) (elem_text: "string option") (elem_children: "xml list")

fun strip_namespaces :: "xml \<Rightarrow> xml" where
  \<comment> \<open>the loop over \<open>root.iter()\<close>: \<open>elem.tag.split('}', 1)[1]\<close> where the tag has a \<open>}\<close>\<close>
  "strip_namespaces (Element t x cs) =
     Element (if CHR ''}'' \<in> set t then tl (dropWhile (\<lambda>c. c \<noteq> CHR ''}'') t) else t) x
       (map strip_namespaces cs)"

fun subelements :: "xml \<Rightarrow> xml list" where
  \<comment> \<open>every element below the given one, in document order\<close>
  "subelements (Element t x cs) = concat (map (\<lambda>c. c # subelements c) cs)"

definition findall :: "xml \<Rightarrow> string \<Rightarrow> xml list" where
  \<comment> \<open>\<open>e.findall(name)\<close>: the children with that tag\<close>
  "findall e name = filter (\<lambda>c. elem_tag c = name) (elem_children e)"

definition findall_below :: "xml \<Rightarrow> string \<Rightarrow> xml list" where
  \<comment> \<open>\<open>e.findall(".//" + name)\<close>\<close>
  "findall_below e name = filter (\<lambda>c. elem_tag c = name) (subelements e)"

definition stripped_text :: "xml \<Rightarrow> string list" where
  \<comment> \<open>\<open>loc.text.strip()\<close> when \<open>loc.text\<close> is neither \<open>None\<close> nor empty\<close>
  "stripped_text loc =
     (case elem_text loc of None \<Rightarrow> [] | Some t \<Rightarrow> if t = [] then [] else [strip t])"

definition child_locs :: "xml \<Rightarrow> string \<Rightarrow> string list" where
  \<comment> \<open>for each child with the given tag, the stripped text of its first \<open>loc\<close> child, when
      there is one with text\<close>
  "child_locs root name =
     concat (map (\<lambda>entry. case first (findall entry ''loc'') of
                             None \<Rightarrow> []
                           | Some loc \<Rightarrow> stripped_text loc)
                 (findall root name))"

definition fallback_locs :: "xml \<Rightarrow> string list" where
  "fallback_locs root = concat (map stripped_text (findall_below root ''loc''))"

record resolver =
  seen :: "string set"
  final_urls :: "string list"
  queue :: "string list"
  fetched :: "string list"  \<comment> \<open>the calls of the fetcher so far, in order (not in the source)\<close>

definition visit ::
  "(string \<Rightarrow> int \<times> string) \<Rightarrow> (string \<Rightarrow> xml option) \<Rightarrow> string \<Rightarrow> resolver \<Rightarrow> resolver"
where
  \<comment> \<open>the body of the loop for a URL not seen before, once it is taken off the queue\<close>
  "visit fetch_text fromstring current_url s =
     (let s1 = s\<lparr>seen := insert current_url (seen s), fetched := fetched s @ [current_url]\<rparr>
      in case fetch_text current_url of (code, xml_text) \<Rightarrow>
           if code \<noteq> 200 \<or> xml_text = [] then s1
           else (case fromstring xml_text of
                   None \<Rightarrow> s1
                 | Some parsed \<Rightarrow>
                     (let root = strip_namespaces parsed
                      in if lower (elem_tag root) = ''sitemapindex''
                         then s1\<lparr>queue := queue s1 @
                                  filter (\<lambda>nested_url. nested_url \<notin> seen s1)
                                    (child_locs root ''sitemap'')\<rparr>
                         else if lower (elem_tag root) = ''urlset''
                         then s1\<lparr>final_urls := final_urls s1 @ child_locs root ''url''\<rparr>
                         else s1\<lparr>queue := queue s1 @
                                  filter (\<lambda>txt. endswith txt ''.xml'') (fallback_locs root),
                                final_urls := final_urls s1 @
                                  filter (\<lambda>txt. \<not> endswith txt ''.xml'') (fallback_locs root)\<rparr>)))"

partial_function (option) parse_loop ::
  "(string \<Rightarrow> int \<times> string) \<Rightarrow> (string \<Rightarrow> xml option) \<Rightarrow> resolver \<Rightarrow> resolver option"
where
  "parse_loop fetch_text fromstring s =
     (case queue s of
        [] \<Rightarrow> Some s
      | current_url # rest \<Rightarrow>
          if current_url \<in> seen s then parse_loop fetch_text fromstring (s\<lparr>queue := rest\<rparr>)
          else parse_loop fetch_text fromstring
                 (visit fetch_text fromstring current_url (s\<lparr>queue := rest\<rparr>)))"

definition initial :: "string \<Rightarrow> resolver" where
  "initial sitemap_input = \<lparr>seen = {}, final_urls = [], queue = [sitemap_input], fetched = []\<rparr>"

definition parse_sitemap ::
  "(string \<Rightarrow> int \<times> string) \<Rightarrow> (string \<Rightarrow> xml option) \<Rightarrow> string \<Rightarrow> string list option"
where
  \<comment> \<open>\<open>list(set(final_urls))\<close> keeps one copy of each URL, in an order that Python leaves
      open; \<open>remdups\<close> stands for it, and nothing below depends on the order.\<close>
  "parse_sitemap fetch_text fromstring sitemap_input =
     map_option (\<lambda>s. remdups (final_urls s)) (parse_loop fetch_text fromstring (initial sitemap_input))"

text \<open>
  The sitemap graph that a fetcher and a parser present: the document behind a URL (when the
  fetch answers 200 with a body that parses), the URLs it makes the resolver enqueue, and the
  URLs it makes the resolver report.
\<close>

definition document ::
  "(string \<Rightarrow> int \<times> string) \<Rightarrow> (string \<Rightarrow> xml option) \<Rightarrow> string \<Rightarrow> xml option"
where
  "document fetch_text fromstring u =
     (case fetch_text u of (code, xml_text) \<Rightarrow>
        if code \<noteq> 200 \<or> xml_text = [] then None
        else map_option strip_namespaces (fromstring xml_text))"

definition is_sitemap_index ::
  "(string \<Rightarrow> int \<times> string) \<Rightarrow> (string \<Rightarrow> xml option) \<Rightarrow> string \<Rightarrow> bool"
where
  "is_sitemap_index fetch_text fromstring u =
     (case document fetch_text fromstring u of
        None \<Rightarrow> False
      | Some root \<Rightarrow> lower (elem_tag root) = ''sitemapindex'')"

definition references ::
  "(string \<Rightarrow> int \<times> string) \<Rightarrow> (string \<Rightarrow> xml option) \<Rightarrow> string \<Rightarrow> string list"
where
  "references fetch_text fromstring u =
     (case document fetch_text fromstring u of
        None \<Rightarrow> []
      | Some root \<Rightarrow>
          if lower (elem_tag root) = ''sitemapindex'' then child_locs root ''sitemap''
          else if lower (elem_tag root) = ''urlset'' then []
          else filter (\<lambda>txt. endswith txt ''.xml'') (fallback_locs root))"

definition page_entries ::
  "(string \<Rightarrow> int \<times> string) \<Rightarrow> (string \<Rightarrow> xml option) \<Rightarrow> string \<Rightarrow> string list"
where
  "page_entries fetch_text fromstring u =
     (case document fetch_text fromstring u of
        None \<Rightarrow> []
      | Some root \<Rightarrow>
          if lower (elem_tag root) = ''sitemapindex'' then []
          else if lower (elem_tag root) = ''urlset'' then child_locs root ''url''
          else filter (\<lambda>txt. \<not> endswith txt ''.xml'') (fallback_locs root))"

text \<open>
  The invariant of the loop, for a set \<open>U\<close> of URLs: the queue holds URLs of \<open>U\<close>, the fetcher
  was called once for each URL seen, and the URLs found so far are the page entries of the
  documents fetched.
\<close>

definition resolver_inv ::
  "(string \<Rightarrow> int \<times> string) \<Rightarrow> (string \<Rightarrow> xml option) \<Rightarrow> string set \<Rightarrow> resolver \<Rightarrow> bool"
where
  "resolver_inv fetch_text fromstring U s =
     (set (queue s) \<subseteq> U \<and> distinct (fetched s) \<and> set (fetched s) = seen s \<and> seen s \<subseteq> U
      \<and> final_urls s = concat (map (page_entries fetch_text fromstring) (fetched s)))"

section \<open>An example site\<close>

text \<open>
  An index that lists \<open>pages.xml\<close> twice and \<open>more.xml\<close>; the URL set \<open>pages.xml\<close>, which
  lists the index itself among its pages; the index \<open>more.xml\<close>, which refers back to the first
  index; \<open>odd.xml\<close>, whose root tag is neither, and which names \<open>pages.xml\<close>, a page and the
  index \<open>archive\<close>; and that index, whose URL does not end in \<open>.xml\<close>.
\<close>

definition index_body :: string where
  "index_body = ''<sitemapindex xmlns='http://www.sitemaps.org/schemas/sitemap/0.9'><sitemap><loc>https://a.example/pages.xml</loc></sitemap><sitemap><loc> https://a.example/more.xml </loc></sitemap><sitemap><loc>https://a.example/pages.xml</loc></sitemap></sitemapindex>''"

definition pages_body :: string where
  "pages_body = ''<urlset xmlns='http://www.sitemaps.org/schemas/sitemap/0.9'><url><loc>https://a.example/</loc></url><url><loc>https://a.example/p</loc><lastmod>2024-01-01</lastmod></url><url><loc>https://a.example/sitemap.xml</loc></url><url><lastmod>2024-01-01</lastmod></url></urlset>''"

definition more_body :: string where
  "more_body = ''<SitemapIndex><sitemap><loc>https://a.example/sitemap.xml</loc></sitemap><sitemap><loc>https://a.example/odd.xml</loc></sitemap><sitemap><loc></loc></sitemap></SitemapIndex>''"

definition odd_body :: string where
  "odd_body = ''<feed><entry><loc>https://a.example/pages.xml</loc></entry><loc>https://a.example/p</loc><entry><item><loc>https://a.example/archive</loc></item></entry></feed>''"

definition archive_body :: string where
  "archive_body = ''<sitemapindex><sitemap><loc>https://a.example/old.xml</loc></sitemap></sitemapindex>''"

definition demo_fetch :: "string \<Rightarrow> int \<times> string" where
  "demo_fetch u =
     (if u = ''https://a.example/sitemap.xml'' then (200, index_body)
      else if u = ''https://a.example/pages.xml'' then (200, pages_body)
      else if u = ''https://a.example/more.xml'' then (200, more_body)
      else if u = ''https://a.example/odd.xml'' then (200, odd_body)
      else if u = ''https://a.example/archive'' then (200, archive_body)
      else (404, ''Not Found''))"

definition demo_fromstring :: "string \<Rightarrow> xml option" where
  "demo_fromstring xml_text =
     (if xml_text = index_body then
        Some (Element ''{http://www.sitemaps.org/schemas/sitemap/0.9}sitemapindex'' None
          [Element ''{http://www.sitemaps.org/schemas/sitemap/0.9}sitemap'' None
             [Element ''{http://www.sitemaps.org/schemas/sitemap/0.9}loc''
                (Some ''https://a.example/pages.xml'') []],
           Element ''{http://www.sitemaps.org/schemas/sitemap/0.9}sitemap'' None
             [Element ''{http://www.sitemaps.org/schemas/sitemap/0.9}loc''
                (Some '' https://a.example/more.xml '') []],
           Element ''{http://www.sitemaps.org/schemas/sitemap/0.9}sitemap'' None
             [Element ''{http://www.sitemaps.org/schemas/sitemap/0.9}loc''
                (Some ''https://a.example/pages.xml'') []]])
      else if xml_text = pages_body then
        Some (Element ''{http://www.sitemaps.org/schemas/sitemap/0.9}urlset'' None
          [Element ''{http://www.sitemaps.org/schemas/sitemap/0.9}url'' None
             [Element ''{http://www.sitemaps.org/schemas/sitemap/0.9}loc''
                (Some ''https://a.example/'') []],
           Element ''{http://www.sitemaps.org/schemas/sitemap/0.9}url'' None
             [Element ''{http://www.sitemaps.org/schemas/sitemap/0.9}loc''
                (Some ''https://a.example/p'') [],
              Element ''{http://www.sitemaps.org/schemas/sitemap/0.9}lastmod''
                (Some ''2024-01-01'') []],
           Element ''{http://www.sitemaps.org/schemas/sitemap/0.9}url'' None
             [Element ''{http://www.sitemaps.org/schemas/sitemap/0.9}loc''
                (Some ''https://a.example/sitemap.xml'') []],
           Element ''{http://www.sitemaps.org/schemas/sitemap/0.9}url'' None
             [Element ''{http://www.sitemaps.org/schemas/sitemap/0.9}lastmod''
                (Some ''2024-01-01'') []]])
      else if xml_text = more_body then
        Some (Element ''SitemapIndex'' None
          [Element ''sitemap'' None [Element ''loc'' (Some ''https://a.example/sitemap.xml'') []],
           Element ''sitemap'' None [Element ''loc'' (Some ''https://a.example/odd.xml'') []],
           Element ''sitemap'' None [Element ''loc'' None []]])
      else if xml_text = odd_body then
        Some (Element ''feed'' None
          [Element ''entry'' None [Element ''loc'' (Some ''https://a.example/pages.xml'') []],
           Element ''loc'' (Some ''https://a.example/p'') [],
           Element ''entry'' None
             [Element ''item'' None [Element ''loc'' (Some ''https://a.example/archive'') []]]])
      else if xml_text = archive_body then
        Some (Element ''sitemapindex'' None
          [Element ''sitemap'' None [Element ''loc'' (Some ''https://a.example/old.xml'') []]])
      else None)"

definition demo_urls :: "string set" where
  "demo_urls = {''https://a.example/sitemap.xml'', ''https://a.example/pages.xml'',
                ''https://a.example/more.xml'', ''https://a.example/odd.xml''}"

section \<open>Example pages\<close>

definition demo_page :: "string \<Rightarrow> string \<Rightarrow> string \<Rightarrow> string \<Rightarrow> html" where
  "demo_page ttl desc_name desc canon =
     Tag ''[document]'' []
       [Tag ''html'' []
          [Tag ''head'' []
             [Tag ''title'' [] [NavigableString ttl],
              Tag ''meta'' [(''name'', ''viewport''), (''content'', ''width=device-width'')] [],
              Tag ''meta'' [(''name'', desc_name), (''content'', desc)] [],
              Tag ''link'' [(''rel'', ''stylesheet''), (''href'', ''/s.css'')] [],
              Tag ''link'' [(''rel'', ''canonical''), (''href'', canon)] []],
           Tag ''body'' []
             [Tag ''h1'' [(''id'', ''top'')] [NavigableString ''Widgets''],
              Tag ''p'' [] [NavigableString ''All about  widgets, isn't it?''],
              Tag ''a'' [(''href'', ''#top'')] [NavigableString ''up''],
              Tag ''a'' [(''href'', ''#section1'')] [NavigableString ''one''],
              Tag ''a'' [(''href'', ''https://b.example/z'')] [NavigableString ''z''],
              Tag ''img'' [(''src'', ''a.png'')] [],
              Tag ''img'' [(''src'', ''b.png''), (''alt'', ''b'')] []]]]"

definition demo_netloc :: "string \<Rightarrow> string option" where
  "demo_netloc href =
     (if href = ''https://WWW.a.example/x'' then Some ''WWW.a.example''
      else if href = ''https://shop.a.example/y'' then Some ''shop.a.example''
      else if href = ''https://b.example/z'' then Some ''b.example''
      else if href = ''http://[bad'' then None
      else Some [])"

definition demo_row :: "int \<times> string \<Rightarrow> string \<Rightarrow> string \<Rightarrow> string \<Rightarrow> string \<Rightarrow> SeoMetrics" where
  \<comment> \<open>the row of \<open>https://a.example/p\<close> on the site \<open>a.example\<close>, for a given answer of the
      fetcher and a given page\<close>
  "demo_row answer ttl desc_name desc canon =
     main_row (\<lambda>_. answer) (\<lambda>_. demo_page ttl desc_name desc canon) demo_netloc
       ''a.example'' ''https://a.example/p''"

definition demo_audit :: "string \<Rightarrow> string \<Rightarrow> string \<Rightarrow> string \<Rightarrow> audit_data" where
  "demo_audit ttl desc_name desc canon =
     audit_html (\<lambda>_. demo_page ttl desc_name desc canon) demo_netloc
       ''https://a.example/p'' ''<html>'' ''a.example''"

definition demo_rel_page :: "string \<Rightarrow> string \<Rightarrow> html" where
  \<comment> \<open>a page with one \<open>link\<close> element, of the given \<open>rel\<close> and \<open>href\<close>\<close>
  "demo_rel_page rel href =
     Tag ''[document]'' []
       [Tag ''html'' []
          [Tag ''head'' []
             [Tag ''title'' [] [NavigableString ''Widgets''],
              Tag ''link'' [(''rel'', rel), (''href'', href)] []],
           Tag ''body'' [] [Tag ''h1'' [] [NavigableString ''Widgets'']]]]"

definition demo_rel_audit :: "string \<Rightarrow> string \<Rightarrow> audit_data" where
  "demo_rel_audit rel href =
     audit_html (\<lambda>_. demo_rel_page rel href) demo_netloc
       ''https://a.example/p'' ''<html>'' ''a.example''"

definition demo_anchor :: "string \<Rightarrow> html" where
  "demo_anchor href = Tag ''a'' [(''href'', href)] [NavigableString ''link'']"

section \<open>Properties of the severity cascade\<close>

text \<open>
  C1. \<open>compute_severity\<close> is the ordered short-circuit cascade
  \<open>http_status \<ge> 400\<close>, \<open>h1_count = 0\<close>, canonical \<open>MISSING\<close>, title \<open>MISSING\<close> (all \<open>ERROR\<close>),
  thin content, description not \<open>OK\<close>, title not \<open>OK\<close>, \<open>broken_anchors > 0\<close>,
  \<open>img_missing_alt > 0\<close> (all \<open>WARN\<close>), otherwise \<open>OK\<close>.  A row with status 500 is \<open>ERROR\<close>
  whatever its other signals; a row with status 200 and no \<open>h1\<close> is \<open>ERROR\<close>; a row whose
  only issue is \<open>img_missing_alt = 3\<close> is \<open>WARN\<close>.
\<close>

theorem compute_severity_cascade:
  "compute_severity m = first_match severity_cascade ''OK'' m
   \<and> (http_status m = 500 \<longrightarrow> compute_severity m = ''ERROR'')
   \<and> (http_status m = 200 \<and> h1_count m = 0 \<longrightarrow> compute_severity m = ''ERROR'')
   \<and> (http_status m < 400 \<and> h1_count m \<noteq> 0 \<and> canonical_status m \<noteq> ''MISSING''
        \<and> title_status m = ''OK'' \<and> is_thin_content m = 0 \<and> meta_desc_status m = ''OK''
        \<and> broken_anchors m \<le> 0 \<and> img_missing_alt m = 3
      \<longrightarrow> compute_severity m = ''WARN'')"
  by (simp add: compute_severity_def severity_cascade_def)

theorem compute_severity_cascade_witness:
  "compute_severity (clean_row\<lparr>http_status := 500\<rparr>) = ''ERROR''
   \<and> compute_severity (clean_row\<lparr>h1_count := 0\<rparr>) = ''ERROR''
   \<and> compute_severity (clean_row\<lparr>img_missing_alt := 3\<rparr>) = ''WARN''
   \<and> compute_severity clean_row = first_match severity_cascade ''OK'' clean_row"
  using compute_severity_cascade [of "clean_row\<lparr>http_status := 500\<rparr>"]
        compute_severity_cascade [of "clean_row\<lparr>h1_count := 0\<rparr>"]
        compute_severity_cascade [of "clean_row\<lparr>img_missing_alt := 3\<rparr>"]
        compute_severity_cascade [of clean_row]
  by (simp add: clean_row_def compute_severity_def severity_cascade_def)

text \<open>
  C10. A canonical status \<open>OTHER\<close> is not penalised: a row with \<open>http_status < 400\<close>, at
  least one \<open>h1\<close>, title and description \<open>OK\<close>, not thin, no broken anchor, no image without
  \<open>alt\<close>, and canonical status \<open>OTHER\<close> has severity \<open>OK\<close>.
\<close>

theorem canonical_other_not_penalized:
  "http_status m < 400 \<Longrightarrow> h1_count m \<ge> 1 \<Longrightarrow> title_status m = ''OK'' \<Longrightarrow>
   meta_desc_status m = ''OK'' \<Longrightarrow> is_thin_content m = 0 \<Longrightarrow> broken_anchors m = 0 \<Longrightarrow>
   img_missing_alt m = 0 \<Longrightarrow> canonical_status m = ''OTHER'' \<Longrightarrow>
   compute_severity m = ''OK''"
  by (simp add: compute_severity_def)

theorem canonical_other_not_penalized_witness:
  "compute_severity (clean_row\<lparr>canonical_status := ''OTHER''\<rparr>) = ''OK''"
  using canonical_other_not_penalized [of "clean_row\<lparr>canonical_status := ''OTHER''\<rparr>"]
  by (simp add: clean_row_def)

section \<open>Properties of the page audit\<close>

lemma strip_Nil: "strip [] = []" by (simp add: strip_def)

lemma rstrip_slash_Nil: "rstrip_slash [] = []" by (simp add: rstrip_slash_def)

lemmas row_defs = audit_data.extend_def audit_row.extend_def audit_row.fields_def SeoMetrics.fields_def

lemma title_audit_html:
  "title (audit_html BeautifulSoup netloc page_url html_text domain) =
     (case find (BeautifulSoup html_text) ''title'' of None \<Rightarrow> [] | Some t \<Rightarrow> get_text_strip t)"
  by (simp add: audit_html_def Let_def)

lemma title_len_audit_html:
  "title_len (audit_html BeautifulSoup netloc page_url html_text domain) =
     int (length (title (audit_html BeautifulSoup netloc page_url html_text domain)))"
  by (simp add: audit_html_def Let_def)

lemma title_status_audit_html:
  "title_status (audit_html BeautifulSoup netloc page_url html_text domain) =
     (let n = title_len (audit_html BeautifulSoup netloc page_url html_text domain)
      in if n = 0 then ''MISSING'' else if n < 30 then ''TOO_SHORT''
         else if n > 60 then ''TOO_LONG'' else ''OK'')"
  by (simp add: audit_html_def Let_def)

lemma main_row_title:
  "fetch_text u = (status, html_text) \<Longrightarrow>
   title (main_row fetch_text BeautifulSoup netloc domain u) =
     (if status \<ge> 400 \<or> html_text = [] then []
      else title (audit_html BeautifulSoup netloc u html_text domain))
   \<and> title_len (main_row fetch_text BeautifulSoup netloc domain u) =
     (if status \<ge> 400 \<or> html_text = [] then 0
      else title_len (audit_html BeautifulSoup netloc u html_text domain))
   \<and> title_status (main_row fetch_text BeautifulSoup netloc domain u) =
     (if status \<ge> 400 \<or> html_text = [] then ''MISSING''
      else title_status (audit_html BeautifulSoup netloc u html_text domain))"
  by (simp add: main_row_def fallback_data_def Let_def row_defs)

text \<open>
  C5. On every row, \<open>title_status\<close> is determined by \<open>title_len\<close>, the length of the title:
  0 gives \<open>MISSING\<close>, 1 to 29 \<open>TOO_SHORT\<close>, 30 to 60 \<open>OK\<close>, above 60 \<open>TOO_LONG\<close>; the lengths
  29, 30, 60 and 61 give \<open>TOO_SHORT\<close>, \<open>OK\<close>, \<open>OK\<close> and \<open>TOO_LONG\<close>.
\<close>

theorem title_status_buckets:
  "r = main_row fetch_text BeautifulSoup netloc domain u \<Longrightarrow>
   title_len r = int (length (title r))
   \<and> (title_len r = 0 \<longrightarrow> title_status r = ''MISSING'')
   \<and> (1 \<le> title_len r \<and> title_len r \<le> 29 \<longrightarrow> title_status r = ''TOO_SHORT'')
   \<and> (30 \<le> title_len r \<and> title_len r \<le> 60 \<longrightarrow> title_status r = ''OK'')
   \<and> (60 < title_len r \<longrightarrow> title_status r = ''TOO_LONG'')
   \<and> (title_len r = 29 \<longrightarrow> title_status r = ''TOO_SHORT'')
   \<and> (title_len r = 30 \<longrightarrow> title_status r = ''OK'')
   \<and> (title_len r = 60 \<longrightarrow> title_status r = ''OK'')
   \<and> (title_len r = 61 \<longrightarrow> title_status r = ''TOO_LONG'')"
proof -
  assume r: "r = main_row fetch_text BeautifulSoup netloc domain u"
  obtain status html_text where f: "fetch_text u = (status, html_text)"
    by (cases "fetch_text u")
  show ?thesis
    unfolding r using f main_row_title [of fetch_text u status html_text BeautifulSoup netloc domain]
    by (simp add: title_len_audit_html title_status_audit_html Let_def)
qed

lemma demo_title_len:
  "title_len (demo_row (200, ''<html>'') ttl dn d c) = int (length (strip ttl))"
proof -
  have "title (demo_audit ttl dn d c) = (if strip ttl = [] then [] else strip ttl)"
    unfolding demo_audit_def title_audit_html
    by (simp add: demo_page_def find_def find_all_def find_all_tags_def first_def get_text_strip_def)
  then show ?thesis
    using main_row_title [of "\<lambda>_. (200, ''<html>'')" "''https://a.example/p''" 200 "''<html>''"
        "\<lambda>_. demo_page ttl dn d c" demo_netloc "''a.example''"]
    by (simp add: demo_row_def demo_audit_def title_len_audit_html)
qed

lemma strip_replicate: "\<not> isspace c \<Longrightarrow> strip (replicate n c) = replicate n c"
  by (cases n) (simp_all add: strip_def replicate_append_same [symmetric] del: replicate_Suc)

theorem title_status_buckets_witness:
  "title_status (demo_row (200, ''<html>'') (replicate 29 (CHR ''t'')) ''description'' [] []) = ''TOO_SHORT''
   \<and> title_status (demo_row (200, ''<html>'') (replicate 30 (CHR ''t'')) ''description'' [] []) = ''OK''
   \<and> title_status (demo_row (200, ''<html>'') (replicate 60 (CHR ''t'')) ''description'' [] []) = ''OK''
   \<and> title_status (demo_row (200, ''<html>'') (replicate 61 (CHR ''t'')) ''description'' [] []) = ''TOO_LONG''
   \<and> title_status (demo_row (200, ''<html>'') [] ''description'' [] []) = ''MISSING''
   \<and> title_status (demo_row (404, ''Not Found'') [] ''description'' [] []) = ''MISSING''"
proof -
  have t: "\<not> isspace (CHR ''t'')" by (simp add: isspace_def)
  have n: "title_len (demo_row (200, ''<html>'') (replicate k (CHR ''t'')) ''description'' [] []) = int k" for k
    by (simp add: demo_title_len strip_replicate [OF t])
  show ?thesis
    using title_status_buckets [OF refl, of "\<lambda>_. (200, ''<html>'')" "\<lambda>_. demo_page (replicate 29 (CHR ''t'')) ''description'' [] []" demo_netloc "''a.example''" "''https://a.example/p''"]
      title_status_buckets [OF refl, of "\<lambda>_. (200, ''<html>'')" "\<lambda>_. demo_page (replicate 30 (CHR ''t'')) ''description'' [] []" demo_netloc "''a.example''" "''https://a.example/p''"]
      title_status_buckets [OF refl, of "\<lambda>_. (200, ''<html>'')" "\<lambda>_. demo_page (replicate 60 (CHR ''t'')) ''description'' [] []" demo_netloc "''a.example''" "''https://a.example/p''"]
      title_status_buckets [OF refl, of "\<lambda>_. (200, ''<html>'')" "\<lambda>_. demo_page (replicate 61 (CHR ''t'')) ''description'' [] []" demo_netloc "''a.example''" "''https://a.example/p''"]
      title_status_buckets [OF refl, of "\<lambda>_. (200, ''<html>'')" "\<lambda>_. demo_page [] ''description'' [] []" demo_netloc "''a.example''" "''https://a.example/p''"]
      title_status_buckets [OF refl, of "\<lambda>_. (404, ''Not Found'')" "\<lambda>_. demo_page [] ''description'' [] []" demo_netloc "''a.example''" "''https://a.example/p''"]
      n [of 29] n [of 30] n [of 60] n [of 61] n [of 0]
      main_row_title [of "\<lambda>_. (404, ''Not Found'')" "''https://a.example/p''" 404 "''Not Found''"
         "\<lambda>_. demo_page [] ''description'' [] []" demo_netloc "''a.example''"]
    unfolding demo_row_def [symmetric]
    by (simp add: demo_row_def [symmetric])
qed

text \<open>
  C4. When the fetch of a page fails (\<open>http_status \<ge> 400\<close> or an empty body), the row is the
  fixed record with every string field empty, every status \<open>MISSING\<close> and every count zero,
  it carries the status the fetcher returned, and its severity is \<open>ERROR\<close>.
\<close>

theorem fetch_failure_fallback:
  "fetch_text u = (status, html_text) \<Longrightarrow> status \<ge> 400 \<or> html_text = [] \<Longrightarrow>
   main_row fetch_text BeautifulSoup netloc domain u =
     \<lparr>word_count = 0, is_thin_content = 0, title = [], title_len = 0,
      title_status = ''MISSING'', meta_desc = [], meta_desc_len = 0,
      meta_desc_status = ''MISSING'', h1_count = 0, canonical_link = [],
      canonical_status = ''MISSING'', internal_links = 0, external_links = 0,
      broken_anchors = 0, img_missing_alt = 0, http_status = status,
      url = u, severity = ''ERROR''\<rparr>"
  by (auto simp add: main_row_def fallback_data_def compute_severity_def Let_def row_defs)

theorem fetch_failure_fallback_witness:
  "demo_row (404, ''Not Found'') ''Widgets'' ''description'' [] [] =
     \<lparr>word_count = 0, is_thin_content = 0, title = [], title_len = 0,
      title_status = ''MISSING'', meta_desc = [], meta_desc_len = 0,
      meta_desc_status = ''MISSING'', h1_count = 0, canonical_link = [],
      canonical_status = ''MISSING'', internal_links = 0, external_links = 0,
      broken_anchors = 0, img_missing_alt = 0, http_status = 404,
      url = ''https://a.example/p'', severity = ''ERROR''\<rparr>
   \<and> http_status (demo_row (0, []) ''Widgets'' ''description'' [] []) = 0
   \<and> severity (demo_row (0, []) ''Widgets'' ''description'' [] []) = ''ERROR''
   \<and> http_status (demo_row (200, []) ''Widgets'' ''description'' [] []) = 200
   \<and> severity (demo_row (200, []) ''Widgets'' ''description'' [] []) = ''ERROR''"
  using fetch_failure_fallback [of "\<lambda>_. (404, ''Not Found'')" "''https://a.example/p''" 404 "''Not Found''"
          "\<lambda>_. demo_page ''Widgets'' ''description'' [] []" demo_netloc "''a.example''"]
        fetch_failure_fallback [of "\<lambda>_. (0, [])" "''https://a.example/p''" 0 "[]"
          "\<lambda>_. demo_page ''Widgets'' ''description'' [] []" demo_netloc "''a.example''"]
        fetch_failure_fallback [of "\<lambda>_. (200, [])" "''https://a.example/p''" 200 "[]"
          "\<lambda>_. demo_page ''Widgets'' ''description'' [] []" demo_netloc "''a.example''"]
  by (simp add: demo_row_def)

lemma meta_desc_audit_html:
  "meta_desc (audit_html BeautifulSoup netloc page_url html_text domain) =
     (case first (filter (\<lambda>t. get t ''name'' = Some ''description'')
                    (find_all (BeautifulSoup html_text) ''meta'')) of
        None \<Rightarrow> []
      | Some d \<Rightarrow> (case get d ''content'' of None \<Rightarrow> [] | Some c \<Rightarrow> strip c))"
  by (simp add: audit_html_def Let_def find_attr_def strip_Nil split: option.splits)

lemma meta_desc_len_audit_html:
  "meta_desc_len (audit_html BeautifulSoup netloc page_url html_text domain) =
     int (length (meta_desc (audit_html BeautifulSoup netloc page_url html_text domain)))"
  by (simp add: audit_html_def Let_def)

lemma meta_desc_status_audit_html:
  "meta_desc_status (audit_html BeautifulSoup netloc page_url html_text domain) =
     (let n = meta_desc_len (audit_html BeautifulSoup netloc page_url html_text domain)
      in if n = 0 then ''MISSING'' else if n < 50 then ''TOO_SHORT''
         else if n > 160 then ''TOO_LONG'' else ''OK'')"
  by (simp add: audit_html_def Let_def)

text \<open>
  C6. The meta description of an audited page is the stripped \<open>content\<close> attribute of the
  first \<open>meta\<close> element whose \<open>name\<close> attribute is exactly \<open>description\<close>, and
  \<open>meta_desc_status\<close> follows its length: 0 gives \<open>MISSING\<close>, 1 to 49 \<open>TOO_SHORT\<close>, 50 to 160
  \<open>OK\<close>, above 160 \<open>TOO_LONG\<close>; the lengths 49, 50, 160 and 161 give \<open>TOO_SHORT\<close>, \<open>OK\<close>,
  \<open>OK\<close> and \<open>TOO_LONG\<close>.
\<close>

theorem meta_desc_status_buckets:
  "r = audit_html BeautifulSoup netloc page_url html_text domain \<Longrightarrow>
   meta_desc r =
     (case first (filter (\<lambda>t. get t ''name'' = Some ''description'')
                    (find_all (BeautifulSoup html_text) ''meta'')) of
        None \<Rightarrow> []
      | Some d \<Rightarrow> (case get d ''content'' of None \<Rightarrow> [] | Some c \<Rightarrow> strip c))
   \<and> meta_desc_len r = int (length (meta_desc r))
   \<and> (meta_desc_len r = 0 \<longrightarrow> meta_desc_status r = ''MISSING'')
   \<and> (1 \<le> meta_desc_len r \<and> meta_desc_len r \<le> 49 \<longrightarrow> meta_desc_status r = ''TOO_SHORT'')
   \<and> (50 \<le> meta_desc_len r \<and> meta_desc_len r \<le> 160 \<longrightarrow> meta_desc_status r = ''OK'')
   \<and> (160 < meta_desc_len r \<longrightarrow> meta_desc_status r = ''TOO_LONG'')
   \<and> (meta_desc_len r = 49 \<longrightarrow> meta_desc_status r = ''TOO_SHORT'')
   \<and> (meta_desc_len r = 50 \<longrightarrow> meta_desc_status r = ''OK'')
   \<and> (meta_desc_len r = 160 \<longrightarrow> meta_desc_status r = ''OK'')
   \<and> (meta_desc_len r = 161 \<longrightarrow> meta_desc_status r = ''TOO_LONG'')"
  by (simp add: meta_desc_audit_html meta_desc_len_audit_html meta_desc_status_audit_html Let_def)

lemma demo_meta_desc:
  "meta_desc (demo_audit ttl dn d c) = (if dn = ''description'' then strip d else [])"
  unfolding demo_audit_def meta_desc_audit_html
  by (simp add: demo_page_def find_all_def find_all_tags_def first_def)

theorem meta_desc_status_buckets_witness:
  "meta_desc_status (demo_audit ''Widgets'' ''description'' (replicate 49 (CHR ''d'')) []) = ''TOO_SHORT''
   \<and> meta_desc_status (demo_audit ''Widgets'' ''description'' (replicate 50 (CHR ''d'')) []) = ''OK''
   \<and> meta_desc_status (demo_audit ''Widgets'' ''description'' (replicate 160 (CHR ''d'')) []) = ''OK''
   \<and> meta_desc_status (demo_audit ''Widgets'' ''description'' (replicate 161 (CHR ''d'')) []) = ''TOO_LONG''
   \<and> meta_desc_status (demo_audit ''Widgets'' ''description'' [] []) = ''MISSING''
   \<and> meta_desc_status (demo_audit ''Widgets'' ''Description'' (replicate 50 (CHR ''d'')) []) = ''MISSING''"
proof -
  have d: "\<not> isspace (CHR ''d'')" by (simp add: isspace_def)
  have n: "meta_desc_len (demo_audit ''Widgets'' ''description'' (replicate k (CHR ''d'')) []) = int k" for k
    using meta_desc_len_audit_html demo_meta_desc
    by (simp add: demo_audit_def strip_replicate [OF d])
  have m: "meta_desc_len (demo_audit ''Widgets'' ''Description'' (replicate 50 (CHR ''d'')) []) = 0"
    using meta_desc_len_audit_html demo_meta_desc
    by (simp add: demo_audit_def)
  show ?thesis
    using meta_desc_status_buckets [OF refl, of "\<lambda>_. demo_page ''Widgets'' ''description'' (replicate 49 (CHR ''d'')) []" demo_netloc "''https://a.example/p''" "''<html>''" "''a.example''"]
      meta_desc_status_buckets [OF refl, of "\<lambda>_. demo_page ''Widgets'' ''description'' (replicate 50 (CHR ''d'')) []" demo_netloc "''https://a.example/p''" "''<html>''" "''a.example''"]
      meta_desc_status_buckets [OF refl, of "\<lambda>_. demo_page ''Widgets'' ''description'' (replicate 160 (CHR ''d'')) []" demo_netloc "''https://a.example/p''" "''<html>''" "''a.example''"]
      meta_desc_status_buckets [OF refl, of "\<lambda>_. demo_page ''Widgets'' ''description'' (replicate 161 (CHR ''d'')) []" demo_netloc "''https://a.example/p''" "''<html>''" "''a.example''"]
      meta_desc_status_buckets [OF refl, of "\<lambda>_. demo_page ''Widgets'' ''description'' [] []" demo_netloc "''https://a.example/p''" "''<html>''" "''a.example''"]
      meta_desc_status_buckets [OF refl, of "\<lambda>_. demo_page ''Widgets'' ''Description'' (replicate 50 (CHR ''d'')) []" demo_netloc "''https://a.example/p''" "''<html>''" "''a.example''"]
      n [of 49] n [of 50] n [of 160] n [of 161] n [of 0] m
    by (simp add: demo_audit_def)
qed

lemma joined_token:
  assumes "join '' '' ts = v" and "v \<noteq> []" and "CHR '' '' \<notin> set v"
  shows "v \<in> set ts"
proof (cases ts)
  case Nil
  with assms show ?thesis by simp
next
  case (Cons x xs)
  show ?thesis
  proof (cases xs)
    case Nil
    with Cons assms show ?thesis by simp
  next
    case (Cons y ys)
    with \<open>ts = x # xs\<close> assms(1) have "v = x @ '' '' @ join '' '' (y # ys)" by simp
    then have "CHR '' '' \<in> set v" by simp
    with assms(3) show ?thesis by simp
  qed
qed

lemma canonical_token:
  "(''canonical'' \<in> set (tokens held) \<or> join '' '' (tokens held) = ''canonical'')
   = (''canonical'' \<in> set (tokens held))"
  using joined_token [of "tokens held" "''canonical''"] by auto

lemma canonical_link_audit_html:
  "canonical_link (audit_html BeautifulSoup netloc page_url html_text domain) =
     (case first (filter (\<lambda>t. case get t ''rel'' of
                                None \<Rightarrow> False
                              | Some held \<Rightarrow> ''canonical'' \<in> set (tokens held))
                    (find_all (BeautifulSoup html_text) ''link'')) of
        None \<Rightarrow> []
      | Some c \<Rightarrow> (case get c ''href'' of None \<Rightarrow> [] | Some h \<Rightarrow> strip h))"
proof -
  have c: "canonical_link (audit_html BeautifulSoup netloc page_url html_text domain) =
     (case find_attr_tokens (BeautifulSoup html_text) ''link'' ''rel'' ''canonical'' of
        None \<Rightarrow> []
      | Some c \<Rightarrow> (case get c ''href'' of
                    None \<Rightarrow> []
                  | Some h \<Rightarrow> if h = [] then [] else strip h))"
    by (simp add: audit_html_def Let_def)
  have h: "(case get c ''href'' of None \<Rightarrow> [] | Some h \<Rightarrow> if h = [] then [] else strip h)
     = (case get c ''href'' of None \<Rightarrow> [] | Some h \<Rightarrow> strip h)" for c
    by (cases "get c ''href''") (simp_all add: strip_Nil)
  have p: "(\<lambda>t. case get t ''rel'' of
                  None \<Rightarrow> False
                | Some held \<Rightarrow> ''canonical'' \<in> set (tokens held)
                               \<or> join '' '' (tokens held) = ''canonical'')
     = (\<lambda>t. case get t ''rel'' of
                None \<Rightarrow> False
              | Some held \<Rightarrow> ''canonical'' \<in> set (tokens held))"
    by (rule ext) (simp add: canonical_token split: option.splits)
  show ?thesis unfolding c h find_attr_tokens_def p by (rule refl)
qed

lemma canonical_status_audit_html:
  "canonical_status (audit_html BeautifulSoup netloc page_url html_text domain) =
     (let c = canonical_link (audit_html BeautifulSoup netloc page_url html_text domain)
      in if c \<noteq> [] then (if rstrip_slash c = rstrip_slash page_url then ''SELF'' else ''OTHER'')
         else ''MISSING'')"
  by (simp add: audit_html_def Let_def)

lemma tokens_evals:
  "tokens ''canonical'' = [''canonical'']"
  "tokens ''stylesheet'' = [''stylesheet'']"
  "tokens ''canonical nofollow'' = [''canonical'', ''nofollow'']"
  "tokens '' alternate  canonical '' = [''alternate'', ''canonical'']"
  "tokens ''canonical-url'' = [''canonical-url'']"
  by (simp_all add: tokens_def isspace_def)

lemma demo_rel_links:
  "find_all (demo_rel_page rel href) ''link'' = [Tag ''link'' [(''rel'', rel), (''href'', href)] []]"
  by (simp add: demo_rel_page_def find_all_def find_all_tags_def)

lemma demo_rel_canonical_link:
  "canonical_link (demo_rel_audit rel href) =
     (if ''canonical'' \<in> set (tokens rel) then strip href else [])"
  unfolding demo_rel_audit_def canonical_link_audit_html
  by (simp add: demo_rel_links first_def)

lemma demo_rel_canonical_status:
  "canonical_status (demo_rel_audit rel href) =
     (if canonical_link (demo_rel_audit rel href) \<noteq> []
      then (if rstrip_slash (canonical_link (demo_rel_audit rel href))
               = rstrip_slash ''https://a.example/p''
            then ''SELF'' else ''OTHER'')
      else ''MISSING'')"
  unfolding demo_rel_audit_def by (simp add: canonical_status_audit_html Let_def)

lemma demo_strips:
  "strip '' https://a.example/p/ '' = ''https://a.example/p/''"
  "strip ''https://a.example/p/'' = ''https://a.example/p/''"
  "strip ''https://a.example/q'' = ''https://a.example/q''"
  "strip '' '' = []"
  by (simp_all add: strip_def isspace_def)

lemma demo_rstrips:
  "rstrip_slash ''https://a.example/p/'' = ''https://a.example/p''"
  "rstrip_slash ''https://a.example/p'' = ''https://a.example/p''"
  "rstrip_slash ''https://a.example/q'' = ''https://a.example/q''"
  by (simp_all add: rstrip_slash_def)

text \<open>
  The only \<open>link\<close> element of this page has \<open>rel="canonical nofollow"\<close>, which is not the string
  \<open>canonical\<close>; the audit takes its \<open>href\<close> as the canonical link all the same, and the status
  is \<open>SELF\<close>, not \<open>MISSING\<close>.
\<close>

theorem canonical_rel_tokens_counterexample:
  "find_all (demo_rel_page ''canonical nofollow'' ''https://a.example/p/'') ''link''
     = [Tag ''link'' [(''rel'', ''canonical nofollow''), (''href'', ''https://a.example/p/'')] []]
   \<and> get (Tag ''link'' [(''rel'', ''canonical nofollow''), (''href'', ''https://a.example/p/'')] [])
         ''rel'' \<noteq> Some ''canonical''
   \<and> canonical_link (demo_rel_audit ''canonical nofollow'' ''https://a.example/p/'')
       = ''https://a.example/p/''
   \<and> canonical_status (demo_rel_audit ''canonical nofollow'' ''https://a.example/p/'') = ''SELF''"
  by (simp add: demo_rel_links demo_rel_canonical_status demo_rel_canonical_link tokens_evals
      demo_strips demo_rstrips)

text \<open>
  C7 (amended). The canonical link of an audited page is the stripped \<open>href\<close> of the first
  \<open>link\<close> element whose \<open>rel\<close> has the token \<open>canonical\<close> (empty when there is none, or when that
  element has no \<open>href\<close>); a \<open>rel\<close> equal to \<open>canonical\<close> is such a value.  \<open>canonical_status\<close> is
  \<open>MISSING\<close> exactly when the canonical link is empty; for a non-empty link it is \<open>SELF\<close> exactly
  when the link and the page's URL are equal once their trailing slashes are removed, and
  \<open>OTHER\<close> otherwise.
\<close>

theorem canonical_status_cases:
  "r = audit_html BeautifulSoup netloc page_url html_text domain \<Longrightarrow>
   canonical_link r =
     (case first (filter (\<lambda>t. case get t ''rel'' of
                                None \<Rightarrow> False
                              | Some held \<Rightarrow> ''canonical'' \<in> set (tokens held))
                    (find_all (BeautifulSoup html_text) ''link'')) of
        None \<Rightarrow> []
      | Some c \<Rightarrow> (case get c ''href'' of None \<Rightarrow> [] | Some h \<Rightarrow> strip h))
   \<and> ''canonical'' \<in> set (tokens ''canonical'')
   \<and> (canonical_status r = ''MISSING'') = (canonical_link r = [])
   \<and> (canonical_status r = ''SELF'') =
       (canonical_link r \<noteq> [] \<and> rstrip_slash (canonical_link r) = rstrip_slash page_url)
   \<and> (canonical_status r = ''OTHER'') =
       (canonical_link r \<noteq> [] \<and> rstrip_slash (canonical_link r) \<noteq> rstrip_slash page_url)
   \<and> (rstrip_slash page_url \<noteq> [] \<longrightarrow>
        (canonical_status r = ''SELF'') =
        (rstrip_slash (canonical_link r) = rstrip_slash page_url))"
proof -
  assume r: "r = audit_html BeautifulSoup netloc page_url html_text domain"
  have link: "canonical_link r =
     (case first (filter (\<lambda>t. case get t ''rel'' of
                                None \<Rightarrow> False
                              | Some held \<Rightarrow> ''canonical'' \<in> set (tokens held))
                    (find_all (BeautifulSoup html_text) ''link'')) of
        None \<Rightarrow> []
      | Some c \<Rightarrow> (case get c ''href'' of None \<Rightarrow> [] | Some h \<Rightarrow> strip h))"
    unfolding r by (rule canonical_link_audit_html)
  have tok: "''canonical'' \<in> set (tokens ''canonical'')"
    by (simp add: tokens_evals)
  have st: "canonical_status r =
     (if canonical_link r \<noteq> []
      then (if rstrip_slash (canonical_link r) = rstrip_slash page_url then ''SELF'' else ''OTHER'')
      else ''MISSING'')"
    unfolding r by (simp add: canonical_status_audit_html Let_def)
  have rest: "(canonical_status r = ''MISSING'') = (canonical_link r = [])
   \<and> (canonical_status r = ''SELF'') =
       (canonical_link r \<noteq> [] \<and> rstrip_slash (canonical_link r) = rstrip_slash page_url)
   \<and> (canonical_status r = ''OTHER'') =
       (canonical_link r \<noteq> [] \<and> rstrip_slash (canonical_link r) \<noteq> rstrip_slash page_url)
   \<and> (rstrip_slash page_url \<noteq> [] \<longrightarrow>
        (canonical_status r = ''SELF'') =
        (rstrip_slash (canonical_link r) = rstrip_slash page_url))"
    unfolding st using rstrip_slash_Nil by (cases "canonical_link r = []") auto
  from link tok rest show ?thesis by blast
qed

lemma demo_canonical_link:
  "canonical_link (demo_audit ttl dn d c) = strip c"
  unfolding demo_audit_def canonical_link_audit_html
  by (simp add: demo_page_def find_all_def find_all_tags_def first_def tokens_evals)

theorem canonical_status_cases_witness:
  "canonical_status (demo_audit ''Widgets'' ''description'' [] '' https://a.example/p/ '') = ''SELF''
   \<and> canonical_status (demo_audit ''Widgets'' ''description'' [] ''https://a.example/q'') = ''OTHER''
   \<and> canonical_status (demo_audit ''Widgets'' ''description'' [] '' '') = ''MISSING''
   \<and> canonical_status (demo_rel_audit '' alternate  canonical '' ''https://a.example/q'') = ''OTHER''
   \<and> canonical_status (demo_rel_audit ''canonical-url'' ''https://a.example/p'') = ''MISSING''"
proof -
  note s = demo_strips
  note t = demo_rstrips
  have 1: "canonical_status (demo_audit ''Widgets'' ''description'' [] '' https://a.example/p/ '') = ''SELF''
   \<and> canonical_status (demo_audit ''Widgets'' ''description'' [] ''https://a.example/q'') = ''OTHER''
   \<and> canonical_status (demo_audit ''Widgets'' ''description'' [] '' '') = ''MISSING''"
    using canonical_status_cases [OF refl, of "\<lambda>_. demo_page ''Widgets'' ''description'' [] '' https://a.example/p/ ''" demo_netloc "''https://a.example/p''" "''<html>''" "''a.example''"]
      canonical_status_cases [OF refl, of "\<lambda>_. demo_page ''Widgets'' ''description'' [] ''https://a.example/q''" demo_netloc "''https://a.example/p''" "''<html>''" "''a.example''"]
      canonical_status_cases [OF refl, of "\<lambda>_. demo_page ''Widgets'' ''description'' [] '' ''" demo_netloc "''https://a.example/p''" "''<html>''" "''a.example''"]
      demo_canonical_link [of "''Widgets''" "''description''" "[]" "'' https://a.example/p/ ''"]
      demo_canonical_link [of "''Widgets''" "''description''" "[]" "''https://a.example/q''"]
      demo_canonical_link [of "''Widgets''" "''description''" "[]" "'' ''"]
    unfolding demo_audit_def [symmetric] s
    by (simp add: t)
  have 2: "canonical_status (demo_rel_audit '' alternate  canonical '' ''https://a.example/q'') = ''OTHER''
   \<and> canonical_status (demo_rel_audit ''canonical-url'' ''https://a.example/p'') = ''MISSING''"
    using canonical_status_cases [OF refl, of "\<lambda>_. demo_rel_page '' alternate  canonical '' ''https://a.example/q''" demo_netloc "''https://a.example/p''" "''<html>''" "''a.example''"]
      canonical_status_cases [OF refl, of "\<lambda>_. demo_rel_page ''canonical-url'' ''https://a.example/p''" demo_netloc "''https://a.example/p''" "''<html>''" "''a.example''"]
      demo_rel_canonical_link [of "'' alternate  canonical ''" "''https://a.example/q''"]
      demo_rel_canonical_link [of "''canonical-url''" "''https://a.example/p''"]
    unfolding demo_rel_audit_def [symmetric] tokens_evals
    by (simp add: s t)
  from 1 2 show ?thesis by blast
qed

lemma word_count_audit_html:
  "word_count (audit_html BeautifulSoup netloc page_url html_text domain) =
     count_words (normalize_space (get_text (BeautifulSoup html_text) '' ''))"
  by (simp add: audit_html_def Let_def)

lemma is_thin_content_audit_html:
  "is_thin_content (audit_html BeautifulSoup netloc page_url html_text domain) =
     (if word_count (audit_html BeautifulSoup netloc page_url html_text domain) < 300 then 1 else 0)"
  by (simp add: audit_html_def Let_def)

lemma main_row_word_count:
  "fetch_text u = (status, html_text) \<Longrightarrow>
   word_count (main_row fetch_text BeautifulSoup netloc domain u) =
     (if status \<ge> 400 \<or> html_text = [] then 0
      else word_count (audit_html BeautifulSoup netloc u html_text domain))
   \<and> is_thin_content (main_row fetch_text BeautifulSoup netloc domain u) =
     (if status \<ge> 400 \<or> html_text = [] then 0
      else is_thin_content (audit_html BeautifulSoup netloc u html_text domain))"
  by (simp add: main_row_def fallback_data_def Let_def row_defs)

text \<open>
  The fallback record of a failed fetch has \<open>word_count = 0\<close>, below the threshold, and
  \<open>is_thin_content = 0\<close>: on the row of a page answered with status 404 the equivalence of
  \<open>is_thin_content\<close> and \<open>word_count < 300\<close> fails.
\<close>

theorem thin_content_fallback_counterexample:
  "\<not> ((is_thin_content (demo_row (404, ''Not Found'') ''Widgets'' ''description'' [] []) \<noteq> 0)
       = (word_count (demo_row (404, ''Not Found'') ''Widgets'' ''description'' [] []) < 300))"
  using main_row_word_count [of "\<lambda>_. (404, ''Not Found'')" "''https://a.example/p''" 404 "''Not Found''"
          "\<lambda>_. demo_page ''Widgets'' ''description'' [] []" demo_netloc "''a.example''"]
  by (simp add: demo_row_def)

text \<open>
  C9 (amended). On the row of a page that was fetched (status below 400 and a non-empty body),
  \<open>is_thin_content\<close> is 1 when \<open>word_count < 300\<close> and 0 otherwise; the row of a failed fetch
  has \<open>word_count = 0\<close> and \<open>is_thin_content = 0\<close>.
\<close>

theorem thin_content_threshold:
  "fetch_text u = (status, html_text) \<Longrightarrow>
   r = main_row fetch_text BeautifulSoup netloc domain u \<Longrightarrow>
   (status < 400 \<and> html_text \<noteq> [] \<longrightarrow>
      (is_thin_content r \<noteq> 0) = (word_count r < 300)
      \<and> is_thin_content r = (if word_count r < 300 then 1 else 0))
   \<and> (status \<ge> 400 \<or> html_text = [] \<longrightarrow> word_count r = 0 \<and> is_thin_content r = 0)"
  using main_row_word_count [of fetch_text u status html_text BeautifulSoup netloc domain]
  by (simp add: is_thin_content_audit_html)

lemma demo_word_count: "word_count (demo_audit ''Widgets'' ''description'' [] []) = 10"
  unfolding demo_audit_def word_count_audit_html by code_simp

theorem thin_content_threshold_witness:
  "word_count (demo_row (200, ''<html>'') ''Widgets'' ''description'' [] []) = 10
   \<and> is_thin_content (demo_row (200, ''<html>'') ''Widgets'' ''description'' [] []) = 1
   \<and> word_count (demo_row (404, ''Not Found'') ''Widgets'' ''description'' [] []) = 0
   \<and> is_thin_content (demo_row (404, ''Not Found'') ''Widgets'' ''description'' [] []) = 0"
  using thin_content_threshold [OF _ refl, of "\<lambda>_. (200, ''<html>'')" "''https://a.example/p''" 200 "''<html>''"
          "\<lambda>_. demo_page ''Widgets'' ''description'' [] []" demo_netloc "''a.example''"]
        thin_content_threshold [OF _ refl, of "\<lambda>_. (404, ''Not Found'')" "''https://a.example/p''" 404 "''Not Found''"
          "\<lambda>_. demo_page ''Widgets'' ''description'' [] []" demo_netloc "''a.example''"]
        main_row_word_count [of "\<lambda>_. (200, ''<html>'')" "''https://a.example/p''" 200 "''<html>''"
          "\<lambda>_. demo_page ''Widgets'' ''description'' [] []" demo_netloc "''a.example''"]
        demo_word_count
  by (simp add: demo_row_def demo_audit_def)

lemma links_audit_html:
  "(internal_links (audit_html BeautifulSoup netloc page_url html_text domain),
    external_links (audit_html BeautifulSoup netloc page_url html_text domain),
    broken_anchors (audit_html BeautifulSoup netloc page_url html_text domain)) =
   count_links netloc (BeautifulSoup html_text) domain"
  by (simp add: audit_html_def Let_def)

text \<open>
  C8. One anchor element changes the counters as follows: an empty or absent \<open>href\<close>, or one
  beginning with \<open>mailto:\<close>, \<open>tel:\<close> or \<open>javascript:\<close>, changes nothing; an \<open>href\<close> beginning
  with \<open>#\<close> adds one to \<open>broken_anchors\<close> exactly when the fragment after \<open>#\<close> is non-empty and
  not among the collected ids (a bare \<open>#\<close> changes nothing); any other \<open>href\<close> adds one to
  \<open>internal_links\<close> when its host, lower-cased and without a leading \<open>www.\<close>, is empty, equals
  the root domain or ends with a dot and the root domain, and adds one to \<open>external_links\<close>
  otherwise.  The three counters of an audited page are these steps over all its anchors,
  from zero.
\<close>

theorem link_classification:
  "href = (case get a ''href'' of None \<Rightarrow> [] | Some h \<Rightarrow> h) \<Longrightarrow>
   host = get_domain netloc href \<Longrightarrow>
   skipped = (href = [] \<or> startswith href ''mailto:'' \<or> startswith href ''tel:''
              \<or> startswith href ''javascript:'') \<Longrightarrow>
   (skipped \<longrightarrow> count_link netloc ids domain a (i, e, b) = (i, e, b))
   \<and> (\<not> skipped \<and> startswith href ''#'' \<longrightarrow>
        count_link netloc ids domain a (i, e, b) =
          (i, e, if drop 1 href \<noteq> [] \<and> drop 1 href \<notin> ids then b + 1 else b))
   \<and> (href = ''#'' \<longrightarrow> count_link netloc ids domain a (i, e, b) = (i, e, b))
   \<and> (\<not> skipped \<and> \<not> startswith href ''#'' \<longrightarrow>
        count_link netloc ids domain a (i, e, b) =
          (if host = [] \<or> host = domain \<or> endswith host (''.'' @ domain)
           then (i + 1, e, b) else (i, e + 1, b)))
   \<and> host = (case netloc href of
               None \<Rightarrow> []
             | Some n \<Rightarrow> if startswith (lower n) ''www.'' then drop 4 (lower n) else lower n)
   \<and> (let r = audit_html BeautifulSoup netloc page_url html_text domain;
           soup = BeautifulSoup html_text
       in (internal_links r, external_links r, broken_anchors r) =
          foldl (\<lambda>c x. count_link netloc (collect_ids soup) domain x c) (0, 0, 0)
            (find_all soup ''a''))"
proof -
  assume h: "href = (case get a ''href'' of None \<Rightarrow> [] | Some h \<Rightarrow> h)"
    and d: "host = get_domain netloc href"
    and s: "skipped = (href = [] \<or> startswith href ''mailto:'' \<or> startswith href ''tel:''
              \<or> startswith href ''javascript:'')"
  have c: "count_link netloc ids domain a (i, e, b) =
     (if skipped then (i, e, b)
      else if startswith href ''#''
      then (if length href > 1 \<and> drop 1 href \<notin> ids then (i, e, b + 1) else (i, e, b))
      else if host = [] then (i + 1, e, b)
      else if host = domain \<or> endswith host (''.'' @ domain) then (i + 1, e, b)
      else (i, e + 1, b))"
    unfolding h d s by (simp add: count_link_def Let_def)
  have l: "(drop 1 href \<noteq> []) = (length href > 1)"
    by (cases href) auto
  have bare: "href = ''#'' \<Longrightarrow> \<not> skipped \<and> startswith href ''#'' \<and> drop 1 href = []"
    unfolding s by (simp add: startswith_def)
  have p1: "skipped \<longrightarrow> count_link netloc ids domain a (i, e, b) = (i, e, b)"
    by (simp add: c)
  have p2: "\<not> skipped \<and> startswith href ''#'' \<longrightarrow>
        count_link netloc ids domain a (i, e, b) =
          (i, e, if drop 1 href \<noteq> [] \<and> drop 1 href \<notin> ids then b + 1 else b)"
    by (simp add: c l)
  have p3: "href = ''#'' \<longrightarrow> count_link netloc ids domain a (i, e, b) = (i, e, b)"
    using bare p2 by auto
  have p4: "\<not> skipped \<and> \<not> startswith href ''#'' \<longrightarrow>
        count_link netloc ids domain a (i, e, b) =
          (if host = [] \<or> host = domain \<or> endswith host (''.'' @ domain)
           then (i + 1, e, b) else (i, e + 1, b))"
    by (simp add: c)
  have p5: "host = (case netloc href of
               None \<Rightarrow> []
             | Some n \<Rightarrow> if startswith (lower n) ''www.'' then drop 4 (lower n) else lower n)"
    unfolding d by (simp add: get_domain_def Let_def split: option.splits)
  have p6: "(let r = audit_html BeautifulSoup netloc page_url html_text domain;
           soup = BeautifulSoup html_text
       in (internal_links r, external_links r, broken_anchors r) =
          foldl (\<lambda>c x. count_link netloc (collect_ids soup) domain x c) (0, 0, 0)
            (find_all soup ''a''))"
    by (simp add: Let_def links_audit_html count_links_def)
  from p1 p2 p3 p4 p5 p6 show ?thesis by blast
qed


lemma demo_count_links:
  "count_links demo_netloc (demo_page ''Widgets'' ''description'' [] []) ''a.example'' = (0, 1, 1)"
  by code_simp

lemmas link_evals = demo_anchor_def demo_netloc_def startswith_def endswith_def get_domain_def
  lower_def lower_char_def

theorem link_classification_witness:
  "count_link demo_netloc {''top''} ''a.example'' (demo_anchor ''mailto:a@a.example'') (0, 0, 0) = (0, 0, 0)
   \<and> count_link demo_netloc {''top''} ''a.example'' (Tag ''a'' [] []) (0, 0, 0) = (0, 0, 0)
   \<and> count_link demo_netloc {''top''} ''a.example'' (demo_anchor ''#section1'') (0, 0, 0) = (0, 0, 1)
   \<and> count_link demo_netloc {''top''} ''a.example'' (demo_anchor ''#top'') (0, 0, 0) = (0, 0, 0)
   \<and> count_link demo_netloc {''top''} ''a.example'' (demo_anchor ''#'') (0, 0, 0) = (0, 0, 0)
   \<and> count_link demo_netloc {''top''} ''a.example'' (demo_anchor ''/about'') (0, 0, 0) = (1, 0, 0)
   \<and> count_link demo_netloc {''top''} ''a.example'' (demo_anchor ''https://WWW.a.example/x'') (0, 0, 0) = (1, 0, 0)
   \<and> count_link demo_netloc {''top''} ''a.example'' (demo_anchor ''https://shop.a.example/y'') (0, 0, 0) = (1, 0, 0)
   \<and> count_link demo_netloc {''top''} ''a.example'' (demo_anchor ''https://b.example/z'') (0, 0, 0) = (0, 1, 0)
   \<and> (internal_links (demo_audit ''Widgets'' ''description'' [] []),
       external_links (demo_audit ''Widgets'' ''description'' [] []),
       broken_anchors (demo_audit ''Widgets'' ''description'' [] [])) = (0, 1, 1)"
proof -
  note L = link_classification [OF refl refl refl, where netloc = demo_netloc and ids = "{''top''}"
      and domain = "''a.example''" and i = 0 and e = 0 and b = 0
      and BeautifulSoup = "\<lambda>_. demo_page ''Widgets'' ''description'' [] []"
      and page_url = "''https://a.example/p''" and html_text = "''<html>''"]
  have 1: "count_link demo_netloc {''top''} ''a.example'' (demo_anchor ''mailto:a@a.example'') (0, 0, 0) = (0, 0, 0)"
    using L [where a = "demo_anchor ''mailto:a@a.example''", THEN conjunct1]
    by (simp add: link_evals)
  have 2: "count_link demo_netloc {''top''} ''a.example'' (Tag ''a'' [] []) (0, 0, 0) = (0, 0, 0)"
    using L [where a = "Tag ''a'' [] []", THEN conjunct1]
    by (simp add: link_evals)
  have 3: "count_link demo_netloc {''top''} ''a.example'' (demo_anchor ''#section1'') (0, 0, 0) = (0, 0, 1)"
    using L [where a = "demo_anchor ''#section1''", THEN conjunct2, THEN conjunct1]
    by (simp add: link_evals)
  have 4: "count_link demo_netloc {''top''} ''a.example'' (demo_anchor ''#top'') (0, 0, 0) = (0, 0, 0)"
    using L [where a = "demo_anchor ''#top''", THEN conjunct2, THEN conjunct1]
    by (simp add: link_evals)
  have 5: "count_link demo_netloc {''top''} ''a.example'' (demo_anchor ''#'') (0, 0, 0) = (0, 0, 0)"
    using L [where a = "demo_anchor ''#''", THEN conjunct2, THEN conjunct2, THEN conjunct1]
    by (simp add: link_evals)
  have 6: "count_link demo_netloc {''top''} ''a.example'' (demo_anchor ''/about'') (0, 0, 0) = (1, 0, 0)"
    using L [where a = "demo_anchor ''/about''", THEN conjunct2, THEN conjunct2, THEN conjunct2, THEN conjunct1]
    by (simp add: link_evals)
  have 7: "count_link demo_netloc {''top''} ''a.example'' (demo_anchor ''https://WWW.a.example/x'') (0, 0, 0) = (1, 0, 0)"
    using L [where a = "demo_anchor ''https://WWW.a.example/x''", THEN conjunct2, THEN conjunct2, THEN conjunct2, THEN conjunct1]
    by (simp add: link_evals)
  have 8: "count_link demo_netloc {''top''} ''a.example'' (demo_anchor ''https://shop.a.example/y'') (0, 0, 0) = (1, 0, 0)"
    using L [where a = "demo_anchor ''https://shop.a.example/y''", THEN conjunct2, THEN conjunct2, THEN conjunct2, THEN conjunct1]
    by (simp add: link_evals)
  have 9: "count_link demo_netloc {''top''} ''a.example'' (demo_anchor ''https://b.example/z'') (0, 0, 0) = (0, 1, 0)"
    using L [where a = "demo_anchor ''https://b.example/z''", THEN conjunct2, THEN conjunct2, THEN conjunct2, THEN conjunct1]
    by (simp add: link_evals)
  have 10: "(internal_links (demo_audit ''Widgets'' ''description'' [] []),
       external_links (demo_audit ''Widgets'' ''description'' [] []),
       broken_anchors (demo_audit ''Widgets'' ''description'' [] [])) = (0, 1, 1)"
    using L [THEN conjunct2, THEN conjunct2, THEN conjunct2, THEN conjunct2, THEN conjunct2] demo_count_links
    unfolding demo_audit_def count_links_def Let_def
    by simp
  from 1 2 3 4 5 6 7 8 9 10 show ?thesis by blast
qed

section \<open>Properties of the sitemap resolver\<close>

lemma visit_seen: "seen (visit F P u s) = insert u (seen s)"
  by (simp add: visit_def Let_def split: prod.splits option.splits)

lemma visit_fetched: "fetched (visit F P u s) = fetched s @ [u]"
  by (simp add: visit_def Let_def split: prod.splits option.splits)

lemma visit_final_urls: "final_urls (visit F P u s) = final_urls s @ page_entries F P u"
  by (simp add: visit_def page_entries_def document_def Let_def split: prod.splits option.splits)

lemma visit_queue: "set (queue (visit F P u s)) \<subseteq> set (queue s) \<union> set (references F P u)"
  by (auto simp add: visit_def references_def document_def Let_def split: prod.splits option.splits)

lemma visit_inv:
  assumes closed: "\<forall>u\<in>U. set (references F P u) \<subseteq> U"
    and inv: "resolver_inv F P U s" and q: "queue s = u # rest" and u: "u \<notin> seen s"
  shows "resolver_inv F P U (visit F P u (s\<lparr>queue := rest\<rparr>))"
proof -
  from inv q have uU: "u \<in> U" by (auto simp add: resolver_inv_def)
  with closed have r: "set (references F P u) \<subseteq> U" by blast
  from inv q have rest: "set rest \<subseteq> U" by (auto simp add: resolver_inv_def)
  have "set (queue (visit F P u (s\<lparr>queue := rest\<rparr>))) \<subseteq> set rest \<union> set (references F P u)"
    using visit_queue [of F P u "s\<lparr>queue := rest\<rparr>"] by simp
  with r rest have 1: "set (queue (visit F P u (s\<lparr>queue := rest\<rparr>))) \<subseteq> U" by blast
  from inv u uU show ?thesis
    by (simp add: resolver_inv_def 1 visit_seen visit_fetched visit_final_urls)
qed

lemma parse_loop_terminates:
  assumes fin: "finite U" and closed: "\<forall>u\<in>U. set (references F P u) \<subseteq> U"
  shows "resolver_inv F P U s \<Longrightarrow>
         \<exists>s'. parse_loop F P s = Some s' \<and> resolver_inv F P U s' \<and> queue s' = []"
proof (induct s rule: wf_induct_rule
    [OF wf_measures [of "[\<lambda>s. card (U - seen s), \<lambda>s. length (queue s)]"]])
  case (1 s)
  show ?case
  proof (cases "queue s")
    case Nil
    then have "parse_loop F P s = Some s" by (subst parse_loop.simps) simp
    with Nil "1.prems" show ?thesis by simp
  next
    case (Cons u rest)
    show ?thesis
    proof (cases "u \<in> seen s")
      case True
      let ?s = "s\<lparr>queue := rest\<rparr>"
      have eq: "parse_loop F P s = parse_loop F P ?s"
        using Cons True by (subst parse_loop.simps) simp
      have inv: "resolver_inv F P U ?s"
        using "1.prems" Cons by (simp add: resolver_inv_def)
      have less: "(?s, s) \<in> measures [\<lambda>s. card (U - seen s), \<lambda>s. length (queue s)]"
        using Cons by simp
      from "1.hyps" [OF less inv] eq show ?thesis by simp
    next
      case False
      let ?s = "visit F P u (s\<lparr>queue := rest\<rparr>)"
      have eq: "parse_loop F P s = parse_loop F P ?s"
        using Cons False by (subst parse_loop.simps) simp
      have inv: "resolver_inv F P U ?s"
        using visit_inv [OF closed "1.prems" Cons False] .
      from "1.prems" Cons have uU: "u \<in> U" by (auto simp add: resolver_inv_def)
      have "U - insert u (seen s) = (U - seen s) - {u}" by blast
      moreover have "card ((U - seen s) - {u}) < card (U - seen s)"
        using fin uU False by (intro card_Diff1_less) auto
      ultimately have less: "(?s, s) \<in> measures [\<lambda>s. card (U - seen s), \<lambda>s. length (queue s)]"
        by (simp add: visit_seen)
      from "1.hyps" [OF less inv] eq show ?thesis by simp
    qed
  qed
qed

lemma initial_inv: "root \<in> U \<Longrightarrow> resolver_inv F P U (initial root)"
  by (simp add: resolver_inv_def initial_def)

lemmas demo_evals = document_def demo_fetch_def demo_fromstring_def index_body_def pages_body_def
  more_body_def odd_body_def archive_body_def lower_def lower_char_def child_locs_def findall_def findall_below_def
  fallback_locs_def first_def stripped_text_def strip_def isspace_def endswith_def

lemma demo_references:
  "references demo_fetch demo_fromstring ''https://a.example/sitemap.xml'' =
     [''https://a.example/pages.xml'', ''https://a.example/more.xml'', ''https://a.example/pages.xml'']"
  "references demo_fetch demo_fromstring ''https://a.example/pages.xml'' = []"
  "references demo_fetch demo_fromstring ''https://a.example/more.xml'' =
     [''https://a.example/sitemap.xml'', ''https://a.example/odd.xml'']"
  "references demo_fetch demo_fromstring ''https://a.example/odd.xml'' =
     [''https://a.example/pages.xml'']"
  by (simp_all add: references_def demo_evals)

lemma demo_page_entries:
  "page_entries demo_fetch demo_fromstring ''https://a.example/sitemap.xml'' = []"
  "page_entries demo_fetch demo_fromstring ''https://a.example/pages.xml'' =
     [''https://a.example/'', ''https://a.example/p'', ''https://a.example/sitemap.xml'']"
  "page_entries demo_fetch demo_fromstring ''https://a.example/more.xml'' = []"
  "page_entries demo_fetch demo_fromstring ''https://a.example/odd.xml'' =
     [''https://a.example/p'', ''https://a.example/archive'']"
  by (simp_all add: page_entries_def demo_evals)

lemma demo_is_sitemap_index:
  "is_sitemap_index demo_fetch demo_fromstring ''https://a.example/sitemap.xml''"
  "\<not> is_sitemap_index demo_fetch demo_fromstring ''https://a.example/pages.xml''"
  "is_sitemap_index demo_fetch demo_fromstring ''https://a.example/more.xml''"
  "\<not> is_sitemap_index demo_fetch demo_fromstring ''https://a.example/odd.xml''"
  "is_sitemap_index demo_fetch demo_fromstring ''https://a.example/archive''"
  by (simp_all add: is_sitemap_index_def demo_evals)

lemma visit_eq:
  "visit F P u s =
     s\<lparr>seen := insert u (seen s), fetched := fetched s @ [u],
       queue := queue s @ (if is_sitemap_index F P u
                           then filter (\<lambda>n. n \<notin> insert u (seen s)) (references F P u)
                           else references F P u),
       final_urls := final_urls s @ page_entries F P u\<rparr>"
  by (simp add: visit_def is_sitemap_index_def references_def page_entries_def document_def Let_def
      split: prod.splits option.splits)

lemma demo_parse_loop:
  "parse_loop demo_fetch demo_fromstring (initial ''https://a.example/sitemap.xml'') =
     Some \<lparr>seen = demo_urls,
           final_urls = [''https://a.example/'', ''https://a.example/p'',
                         ''https://a.example/sitemap.xml'', ''https://a.example/p'',
                         ''https://a.example/archive''],
           queue = [],
           fetched = [''https://a.example/sitemap.xml'', ''https://a.example/pages.xml'',
                      ''https://a.example/more.xml'', ''https://a.example/odd.xml'']\<rparr>"
  apply (simp add: initial_def)
  apply (subst parse_loop.simps, simp add: visit_eq demo_references demo_page_entries demo_is_sitemap_index)
  apply (subst parse_loop.simps, simp add: visit_eq demo_references demo_page_entries demo_is_sitemap_index)
  apply (subst parse_loop.simps, simp add: visit_eq demo_references demo_page_entries demo_is_sitemap_index)
  apply (subst parse_loop.simps, simp add: visit_eq demo_references demo_page_entries demo_is_sitemap_index)
  apply (subst parse_loop.simps, simp add: visit_eq demo_references demo_page_entries demo_is_sitemap_index)
  apply (subst parse_loop.simps, simp add: visit_eq demo_references demo_page_entries demo_is_sitemap_index)
  apply (subst parse_loop.simps, simp add: visit_eq demo_references demo_page_entries demo_is_sitemap_index)
  apply (auto simp add: demo_urls_def)
  done

lemma demo_closed: "\<forall>u\<in>demo_urls. set (references demo_fetch demo_fromstring u) \<subseteq> demo_urls"
  by (simp add: demo_urls_def demo_references)

text \<open>
  C2. A sitemap graph is a finite set \<open>U\<close> of URLs that holds the root and, with each URL,
  every URL that its document makes the resolver enqueue (the entries of a sitemap index, and
  the \<open>.xml\<close> entries found under an unknown root tag); it may have cycles.  On every such
  graph the loop ends with an empty queue, and the fetcher was called at most once for each
  URL.
\<close>

theorem resolver_terminates:
  assumes "finite U" and "sitemap_input \<in> U"
    and "\<forall>u\<in>U. set (references fetch_text fromstring u) \<subseteq> U"
  shows "\<exists>s. parse_loop fetch_text fromstring (initial sitemap_input) = Some s
             \<and> queue s = [] \<and> distinct (fetched s) \<and> set (fetched s) \<subseteq> U
             \<and> parse_sitemap fetch_text fromstring sitemap_input = Some (remdups (final_urls s))"
proof -
  from parse_loop_terminates [OF assms(1) assms(3) initial_inv [OF assms(2)]]
  obtain s where s: "parse_loop fetch_text fromstring (initial sitemap_input) = Some s"
    and inv: "resolver_inv fetch_text fromstring U s" and q: "queue s = []"
    by blast
  from inv have "distinct (fetched s)" "set (fetched s) \<subseteq> U"
    by (simp_all add: resolver_inv_def)
  with s q show ?thesis by (simp add: parse_sitemap_def)
qed

theorem resolver_terminates_witness:
  "\<exists>s. parse_loop demo_fetch demo_fromstring (initial ''https://a.example/sitemap.xml'') = Some s
       \<and> queue s = [] \<and> distinct (fetched s) \<and> set (fetched s) \<subseteq> demo_urls
       \<and> parse_sitemap demo_fetch demo_fromstring ''https://a.example/sitemap.xml''
           = Some (remdups (final_urls s))"
proof -
  have f: "finite demo_urls" by (simp add: demo_urls_def)
  have r: "''https://a.example/sitemap.xml'' \<in> demo_urls" by (simp add: demo_urls_def)
  show ?thesis by (rule resolver_terminates [OF f r demo_closed])
qed

text \<open>
  On the example site the URL set \<open>pages.xml\<close> lists the URL of the first sitemap index as a
  page, and \<open>odd.xml\<close>, with its unknown root tag, names the index \<open>archive\<close>, whose URL does
  not end in \<open>.xml\<close>: the resolver reports both URLs.
\<close>

theorem reported_sitemap_index_counterexample:
  "parse_sitemap demo_fetch demo_fromstring ''https://a.example/sitemap.xml'' =
     Some [''https://a.example/'', ''https://a.example/sitemap.xml'', ''https://a.example/p'',
           ''https://a.example/archive'']
   \<and> is_sitemap_index demo_fetch demo_fromstring ''https://a.example/sitemap.xml''
   \<and> is_sitemap_index demo_fetch demo_fromstring ''https://a.example/archive''"
  by (simp add: parse_sitemap_def demo_parse_loop demo_is_sitemap_index)

text \<open>
  C3 (amended). On every sitemap graph the resolver returns a list without duplicates, and its
  URLs are exactly the page entries of the fetched documents: the \<open>loc\<close> of each \<open>url\<close> child of
  a URL set, and each \<open>loc\<close> not ending in \<open>.xml\<close> of a document with an unknown root tag.  A
  sitemap index contributes no URL: its entries are only enqueued.
\<close>

theorem resolver_result:
  assumes "finite U" and "sitemap_input \<in> U"
    and "\<forall>u\<in>U. set (references fetch_text fromstring u) \<subseteq> U"
  shows "\<exists>s urls. parse_loop fetch_text fromstring (initial sitemap_input) = Some s
             \<and> parse_sitemap fetch_text fromstring sitemap_input = Some urls
             \<and> distinct urls
             \<and> set urls = (\<Union>u\<in>set (fetched s). set (page_entries fetch_text fromstring u))
             \<and> (\<forall>u\<in>set (fetched s).
                   is_sitemap_index fetch_text fromstring u \<longrightarrow>
                   page_entries fetch_text fromstring u = [])"
proof -
  from parse_loop_terminates [OF assms(1) assms(3) initial_inv [OF assms(2)]]
  obtain s where s: "parse_loop fetch_text fromstring (initial sitemap_input) = Some s"
    and inv: "resolver_inv fetch_text fromstring U s"
    by blast
  from inv have fin: "final_urls s = concat (map (page_entries fetch_text fromstring) (fetched s))"
    by (simp add: resolver_inv_def)
  have idx: "is_sitemap_index fetch_text fromstring u \<longrightarrow> page_entries fetch_text fromstring u = []" for u
    by (simp add: is_sitemap_index_def page_entries_def split: option.splits)
  have "set (remdups (final_urls s)) = (\<Union>u\<in>set (fetched s). set (page_entries fetch_text fromstring u))"
    by (simp add: fin)
  with s idx show ?thesis by (simp add: parse_sitemap_def)
qed

theorem resolver_result_witness:
  "\<exists>s urls. parse_loop demo_fetch demo_fromstring (initial ''https://a.example/sitemap.xml'') = Some s
       \<and> parse_sitemap demo_fetch demo_fromstring ''https://a.example/sitemap.xml'' = Some urls
       \<and> distinct urls
       \<and> set urls = (\<Union>u\<in>set (fetched s). set (page_entries demo_fetch demo_fromstring u))
       \<and> (\<forall>u\<in>set (fetched s).
             is_sitemap_index demo_fetch demo_fromstring u \<longrightarrow>
             page_entries demo_fetch demo_fromstring u = [])"
proof -
  have f: "finite demo_urls" by (simp add: demo_urls_def)
  have r: "''https://a.example/sitemap.xml'' \<in> demo_urls" by (simp add: demo_urls_def)
  show ?thesis by (rule resolver_result [OF f r demo_closed])
qed

end
